theory Spec2Isabelle
  imports Main "HOL-Library.AList" "HOL-Library.Sublist"
begin

section \<open>Retrieval tools and tool registry of the course chatbot (backend/search\_tools.py)\<close>

text \<open>
  The module defines two tools over a shared vector store, \<open>CourseSearchTool\<close> and
  \<open>CourseOutlineTool\<close>, and the \<open>ToolManager\<close> that keeps tools by name. Each tool
  object carries a mutable field \<open>last_sources\<close>; here a method takes the field's value
  and returns the new one next to its text, or the exception it raises. The vector
  store and \<open>json.loads\<close> are collaborators: they appear as parameters.
\<close>

subsection \<open>Python values and formatting\<close>

text \<open>
  The exceptions that occur. \<open>JSONDecodeError\<close> is the one that \<open>json.loads\<close>
  raises for a text that is not JSON; \<open>ValidationError\<close> is the refusal of a model
  class.
\<close>

datatype py_error =
    ValueError string | TypeError | AttributeError | RecursionError
  | JSONDecodeError | ValidationError

text \<open>Truthiness of an \<open>Optional[str]\<close> and of an \<open>Optional[int]\<close>, as \<open>if x:\<close> tests it.\<close>

fun truthy_str :: "string option \<Rightarrow> bool" where
  "truthy_str None = False"
| "truthy_str (Some s) = (s \<noteq> [])"

fun truthy_int :: "int option \<Rightarrow> bool" where
  "truthy_int None = False"
| "truthy_int (Some n) = (n \<noteq> 0)"

text \<open>\<open>str(n)\<close> for an integer, as an f-string renders it: decimal, with a leading minus.\<close>

definition digit_char :: "nat \<Rightarrow> char" where
  "digit_char d = ''0123456789'' ! (d mod 10)"

function str_nat :: "nat \<Rightarrow> string" where
  "str_nat n = (if n < 10 then [digit_char n] else str_nat (n div 10) @ [digit_char (n mod 10)])"
  by pat_completeness auto
termination
  by (relation "measure (\<lambda>n. n)") auto

declare str_nat.simps [simp del]

definition str_int :: "int \<Rightarrow> string" where
  "str_int i = (if i < 0 then CHR ''-'' # str_nat (nat (- i)) else str_nat (nat i))"

text \<open>The apostrophe that the messages put around names.\<close>

abbreviation squote :: string where
  "squote \<equiv> [CHR 0x27]"

text \<open>\<open>sep.join(xs)\<close>.\<close>

fun str_join :: "string \<Rightarrow> string list \<Rightarrow> string" where
  "str_join sep [] = []"
| "str_join sep [x] = x"
| "str_join sep (x # y # ys) = x @ sep @ str_join sep (y # ys)"

subsection \<open>JSON values\<close>

text \<open>
  What \<open>json.loads\<close> returns: \<open>None\<close>, a \<open>bool\<close>, an \<open>int\<close>, a \<open>float\<close>,
  a \<open>str\<close>, a \<open>list\<close> or a \<open>dict\<close> with string keys. A float is named by its
  \<open>repr\<close> (\<open>1.5\<close>, \<open>0.0\<close>, \<open>nan\<close>), which is also what \<open>str\<close> and an f-string
  print. A dictionary is the list of its items in insertion order, the keys distinct.
\<close>

datatype json =
    JNull
  | JBool bool
  | JInt int
  | JFloat string
  | JStr string
  | JList "json list"
  | JDict "(string \<times> json) list"

text \<open>Truthiness, as \<open>if x:\<close> tests it.\<close>

fun truthy_json :: "json \<Rightarrow> bool" where
  "truthy_json JNull = False"
| "truthy_json (JBool b) = b"
| "truthy_json (JInt n) = (n \<noteq> 0)"
| "truthy_json (JFloat r) = (r \<noteq> ''0.0'' \<and> r \<noteq> ''-0.0'')"
| "truthy_json (JStr s) = (s \<noteq> [])"
| "truthy_json (JList xs) = (xs \<noteq> [])"
| "truthy_json (JDict kvs) = (kvs \<noteq> [])"

text \<open>
  \<open>repr\<close> of a string whose characters are code points below 256: double quotes when
  the string has an apostrophe and no double quote, apostrophes otherwise; the quote
  and the backslash are escaped, so are tab, newline and carriage return, and every
  other character that is not printable is written as a backslash, \<open>x\<close> and two
  hexadecimal digits.
\<close>

definition hex_digit :: "nat \<Rightarrow> char" where
  "hex_digit d = ''0123456789abcdef'' ! (d mod 16)"

definition printable :: "char \<Rightarrow> bool" where
  "printable c =
     (let n = (of_char c :: nat)
      in 32 \<le> n \<and> n \<noteq> 127 \<and> \<not> (128 \<le> n \<and> n \<le> 160) \<and> n \<noteq> 173)"

definition escape_char :: "char \<Rightarrow> char \<Rightarrow> string" where
  "escape_char q c =
     (if c = q \<or> c = CHR 0x5C then [CHR 0x5C, c]
      else if c = CHR 0x09 then [CHR 0x5C, CHR ''t'']
      else if c = CHR 0x0A then [CHR 0x5C, CHR ''n'']
      else if c = CHR 0x0D then [CHR 0x5C, CHR ''r'']
      else if \<not> printable c
      then [CHR 0x5C, CHR ''x'', hex_digit (of_char c div 16), hex_digit (of_char c mod 16)]
      else [c])"

definition repr_str :: "string \<Rightarrow> string" where
  "repr_str s =
     (let q = (if CHR 0x27 \<in> set s \<and> CHR 0x22 \<notin> set s then CHR 0x22 else CHR 0x27)
      in [q] @ concat (map (escape_char q) s) @ [q])"

text \<open>\<open>repr(x)\<close>, and \<open>str(x)\<close>, which is what an f-string field \<open>{x}\<close> prints.\<close>

primrec py_repr :: "json \<Rightarrow> string" where
  "py_repr JNull = ''None''"
| "py_repr (JBool b) = (if b then ''True'' else ''False'')"
| "py_repr (JInt n) = str_int n"
| "py_repr (JFloat r) = r"
| "py_repr (JStr s) = repr_str s"
| "py_repr (JList xs) = ''['' @ str_join '', '' (map py_repr xs) @ '']''"
| "py_repr (JDict kvs) =
     ''{'' @ str_join '', ''
               (map (\<lambda>kv. repr_str (fst kv) @ '': '' @ snd kv) (map (map_prod id py_repr) kvs))
     @ ''}''"

definition py_str :: "json \<Rightarrow> string" where
  "py_str x = (case x of JStr s \<Rightarrow> s | _ \<Rightarrow> py_repr x)"

text \<open>
  The items that \<open>for item in x\<close> visits: the elements of a list, the characters of a
  string, the keys of a dictionary; any other value is not iterable.
\<close>

fun py_iter :: "json \<Rightarrow> py_error + json list" where
  "py_iter (JList xs) = Inr xs"
| "py_iter (JStr s) = Inr (map (\<lambda>c. JStr [c]) s)"
| "py_iter (JDict kvs) = Inr (map (\<lambda>kv. JStr (fst kv)) kvs)"
| "py_iter x = Inl TypeError"

text \<open>\<open>d.get(k, default)\<close>: the default only stands in for a key that is absent.\<close>

definition dict_get :: "(string \<times> json) list \<Rightarrow> string \<Rightarrow> json \<Rightarrow> json" where
  "dict_get kvs k d = (case map_of kvs k of None \<Rightarrow> d | Some v \<Rightarrow> v)"

subsection \<open>Data\<close>

text \<open>\<open>models.Source\<close>: a display text and an optional link.\<close>

record source =
  source_text :: string
  source_link :: "string option"

text \<open>
  Modelled from the spec: \<open>Source(text=t, link=v)\<close> for a link \<open>v\<close> that comes out of a
  decoded lesson. models.py is not among the sources; the spec gives a Source a display
  text and an optional link and gives a lesson an optional link, a text. A link of
  another JSON type is refused by the model class.
\<close>

definition make_source :: "string \<Rightarrow> json \<Rightarrow> py_error + source" where
  "make_source t v =
     (case v of
        JStr l \<Rightarrow> Inr \<lparr>source_text = t, source_link = Some l\<rparr>
      | JNull \<Rightarrow> Inr \<lparr>source_text = t, source_link = None\<rparr>
      | _ \<Rightarrow> Inl ValidationError)"

text \<open>
  The metadata dictionary of one hit, read through \<open>meta.get('course_title', 'unknown')\<close>
  and \<open>meta.get('lesson_number')\<close>: an absent key is \<open>None\<close>.
\<close>

record hit_meta =
  course_title :: "string option"
  lesson_number :: "int option"

text \<open>\<open>vector_store.SearchResults\<close> (the distances are never read by the tools).\<close>

record search_results =
  documents :: "string list"
  metadata :: "hit_meta list"
  error :: "string option"

text \<open>
  Modelled from the spec: \<open>SearchResults.is_empty\<close> lives in vector\_store.py, which is
  not among the sources. The spec's empty-result policy applies "if no hits are
  returned", a hit being a document with its metadata.
\<close>

definition is_empty :: "search_results \<Rightarrow> bool" where
  "is_empty r = (documents r = [])"

text \<open>One catalog metadata dictionary.\<close>

record catalog_entry =
  title :: "string option"
  course_link :: "string option"
  instructor :: "string option"
  lessons_json :: "string option"

text \<open>
  The vector store, as the tools use it: \<open>search\<close>, \<open>get_lesson_link\<close>,
  \<open>_resolve_course_name\<close>, \<open>get_existing_course_titles\<close> and
  \<open>course_catalog.get(ids=[t])['metadatas']\<close>.
\<close>

record vector_store =
  search :: "string \<Rightarrow> string option \<Rightarrow> int option \<Rightarrow> search_results"
  get_lesson_link :: "string \<Rightarrow> int \<Rightarrow> string option"
  resolve_course_name :: "string \<Rightarrow> string option"
  get_existing_course_titles :: "string list"
  catalog_metadatas :: "string \<Rightarrow> catalog_entry list option"

subsection \<open>CourseSearchTool\<close>

text \<open>The body of the loop of \<open>_format_results\<close>: the rendered hit and its Source.\<close>

definition format_hit :: "vector_store \<Rightarrow> string \<times> hit_meta \<Rightarrow> string \<times> source" where
  "format_hit store hit =
     (let doc = fst hit; meta = snd hit;
          ctitle = (case course_title meta of None \<Rightarrow> ''unknown'' | Some t \<Rightarrow> t);
          lnum = lesson_number meta;
          header = ''['' @ ctitle
                   @ (case lnum of None \<Rightarrow> [] | Some n \<Rightarrow> '' - Lesson '' @ str_int n)
                   @ '']'';
          stext = ctitle @ (case lnum of None \<Rightarrow> [] | Some n \<Rightarrow> '' - Lesson '' @ str_int n);
          llink = (case lnum of None \<Rightarrow> None | Some n \<Rightarrow> get_lesson_link store ctitle n)
      in (header @ ''\<newline>'' @ doc, \<lparr>source_text = stext, source_link = llink\<rparr>))"

text \<open>
  \<open>_format_results\<close>: the loop runs over \<open>zip(documents, metadata)\<close>; the second
  component is the value assigned to \<open>self.last_sources\<close>.
\<close>

definition format_results :: "vector_store \<Rightarrow> search_results \<Rightarrow> string \<times> source list" where
  "format_results store results =
     (let hits = map (format_hit store) (zip (documents results) (metadata results))
      in (str_join ''\<newline>\<newline>'' (map fst hits), map snd hits))"

text \<open>
  \<open>CourseSearchTool.execute\<close>. The last argument is \<open>self.last_sources\<close> before the
  call; the result is the returned text and \<open>self.last_sources\<close> after it.
\<close>

definition search_execute ::
  "vector_store \<Rightarrow> string \<Rightarrow> string option \<Rightarrow> int option \<Rightarrow> source list \<Rightarrow> string \<times> source list" where
  "search_execute store query cname lnumber prev =
     (let results = search store query cname lnumber in
      if truthy_str (error results) then (the (error results), prev)
      else if is_empty results then
        (''No relevant content found''
           @ (if truthy_str cname then '' in course '' @ squote @ the cname @ squote else [])
           @ (if truthy_int lnumber then '' in lesson '' @ str_int (the lnumber) else [])
           @ ''.'', prev)
      else format_results store results)"

subsection \<open>CourseOutlineTool\<close>

text \<open>
  One round of the loop of \<open>_format_outline\<close>: the line of the lesson and, when the
  lesson has a link, its Source. A lesson that is not a dictionary has no \<open>get\<close>.
\<close>

definition format_lesson :: "string \<Rightarrow> json \<Rightarrow> py_error + string \<times> source option" where
  "format_lesson ctitle lesson =
     (case lesson of
        JDict kvs \<Rightarrow>
          (let lnum = dict_get kvs ''lesson_number'' JNull;
               ltitle = dict_get kvs ''lesson_title'' (JStr ''Untitled'');
               llink = dict_get kvs ''lesson_link'' JNull;
               line = ''- Lesson '' @ py_str lnum @ '': '' @ py_str ltitle
           in if truthy_json llink
              then (case make_source (ctitle @ '' - Lesson '' @ py_str lnum) llink of
                      Inl e \<Rightarrow> Inl e
                    | Inr src \<Rightarrow> Inr (line, Some src))
              else Inr (line, None))
      | _ \<Rightarrow> Inl AttributeError)"

text \<open>The loop: it stops at the first lesson that raises.\<close>

fun format_lessons :: "string \<Rightarrow> json list \<Rightarrow> py_error + string list \<times> source list" where
  "format_lessons ctitle [] = Inr ([], [])"
| "format_lessons ctitle (l # ls) =
     (case format_lesson ctitle l of
        Inl e \<Rightarrow> Inl e
      | Inr (line, src) \<Rightarrow>
          (case format_lessons ctitle ls of
             Inl e \<Rightarrow> Inl e
           | Inr (lines, srcs) \<Rightarrow>
               Inr (line # lines, (case src of None \<Rightarrow> srcs | Some x \<Rightarrow> x # srcs))))"

text \<open>
  \<open>_format_outline\<close>: the text and the value assigned to \<open>self.last_sources\<close>, or the
  exception, raised before the assignment.
\<close>

definition format_outline ::
  "string \<Rightarrow> string option \<Rightarrow> string \<Rightarrow> json \<Rightarrow> py_error + string \<times> source list" where
  "format_outline ctitle clink instr lessons =
     (let header =
            [''Course: '' @ ctitle]
            @ (if truthy_str clink then [''Link: '' @ the clink] else [])
            @ [''Instructor: '' @ instr, '''', ''Lessons:'']
      in if truthy_json lessons
         then (case py_iter lessons of
                 Inl e \<Rightarrow> Inl e
               | Inr items \<Rightarrow>
                   (case format_lessons ctitle items of
                      Inl e \<Rightarrow> Inl e
                    | Inr (lines, srcs) \<Rightarrow> Inr (str_join ''\<newline>'' (header @ lines), srcs)))
         else Inr (str_join ''\<newline>'' (header @ [''- No lessons available'']), []))"

text \<open>
  \<open>CourseOutlineTool.execute\<close>. \<open>loads\<close> stands for \<open>json.loads\<close> on the lesson blob:
  it returns a value or raises. \<open>except json.JSONDecodeError\<close> catches that exception
  and no other.
\<close>

definition outline_execute ::
  "vector_store \<Rightarrow> (string \<Rightarrow> py_error + json) \<Rightarrow> string \<Rightarrow> source list
     \<Rightarrow> py_error + string \<times> source list" where
  "outline_execute store loads cname prev =
     (let resolved = resolve_course_name store cname in
      if \<not> truthy_str resolved then
        (let existing = get_existing_course_titles store in
         if existing \<noteq> []
         then Inr (''No course found matching '' @ squote @ cname @ squote
                     @ ''. Available courses: '' @ str_join '', '' existing, prev)
         else Inr (''No courses available in the system.'', prev))
      else
        (case catalog_metadatas store (the resolved) of
           None \<Rightarrow>
             Inr (''Error: Unable to retrieve metadata for '' @ squote @ the resolved @ squote, prev)
         | Some [] \<Rightarrow>
             Inr (''Error: Unable to retrieve metadata for '' @ squote @ the resolved @ squote, prev)
         | Some (md # rest) \<Rightarrow>
             (let ctitle = (case title md of None \<Rightarrow> ''Unknown'' | Some t \<Rightarrow> t);
                  clink = course_link md;
                  instr = (case instructor md of None \<Rightarrow> ''Unknown'' | Some i \<Rightarrow> i);
                  blob = (case lessons_json md of None \<Rightarrow> ''[]'' | Some b \<Rightarrow> b)
              in case loads blob of
                   Inl e \<Rightarrow>
                     (if e = JSONDecodeError then format_outline ctitle clink instr (JList [])
                      else Inl e)
                 | Inr lessons \<Rightarrow> format_outline ctitle clink instr lessons)))"

subsection \<open>Tools behind the \<open>Tool\<close> interface\<close>

text \<open>
  The keyword arguments of a dispatch, in the two shapes the input schemas of the tools
  define: \<open>query\<close>, \<open>course_name\<close>, \<open>lesson_number\<close> for the search tool and
  \<open>course_name\<close> for the outline tool.
\<close>

datatype call_args =
    SearchArgs string "string option" "int option"
  | OutlineArgs string

text \<open>
  A tool object with its state. Besides the two tools of the module, \<open>OtherTool\<close> is any
  further implementation of the abstract class: the \<open>name\<close> entry of its definition
  (\<open>None\<close> when the key is missing), its \<open>last_sources\<close> attribute (\<open>None\<close> when it
  has none) and its \<open>execute\<close>, which may raise and may change the attribute.
\<close>

datatype tool =
    CourseSearchTool vector_store "source list"
  | CourseOutlineTool vector_store "string \<Rightarrow> py_error + json" "source list"
  | OtherTool "string option" "source list option"
      "call_args \<Rightarrow> source list option \<Rightarrow> py_error + string \<times> source list option"

text \<open>\<open>tool.get_tool_definition().get("name")\<close>.\<close>

fun tool_name :: "tool \<Rightarrow> string option" where
  "tool_name (CourseSearchTool store ls) = Some ''search_course_content''"
| "tool_name (CourseOutlineTool store loads ls) = Some ''get_course_outline''"
| "tool_name (OtherTool n ls f) = n"

text \<open>\<open>tool.last_sources\<close>, \<open>None\<close> when \<open>hasattr(tool, 'last_sources')\<close> is false.\<close>

fun last_sources :: "tool \<Rightarrow> source list option" where
  "last_sources (CourseSearchTool store ls) = Some ls"
| "last_sources (CourseOutlineTool store loads ls) = Some ls"
| "last_sources (OtherTool n ls f) = ls"

text \<open>
  \<open>tool.execute(**kwargs)\<close>: the text and the tool after the call. Keyword arguments
  that do not fit the signature of \<open>execute\<close> raise \<open>TypeError\<close> (a missing \<open>query\<close>,
  an unexpected \<open>query\<close>).
\<close>

fun execute :: "tool \<Rightarrow> call_args \<Rightarrow> py_error + string \<times> tool" where
  "execute (CourseSearchTool store ls) (SearchArgs q c l) =
     (case search_execute store q c l ls of
        (out, ls') \<Rightarrow> Inr (out, CourseSearchTool store ls'))"
| "execute (CourseSearchTool store ls) (OutlineArgs c) = Inl TypeError"
| "execute (CourseOutlineTool store loads ls) (OutlineArgs c) =
     (case outline_execute store loads c ls of
        Inl e \<Rightarrow> Inl e
      | Inr (out, ls') \<Rightarrow> Inr (out, CourseOutlineTool store loads ls'))"
| "execute (CourseOutlineTool store loads ls) (SearchArgs q c l) = Inl TypeError"
| "execute (OtherTool n ls f) args =
     (case f args ls of
        Inl e \<Rightarrow> Inl e
      | Inr (out, ls') \<Rightarrow> Inr (out, OtherTool n ls' f))"

text \<open>\<open>tool.last_sources = []\<close> under \<open>hasattr(tool, 'last_sources')\<close>.\<close>

fun reset_tool :: "tool \<Rightarrow> tool" where
  "reset_tool (CourseSearchTool store ls) = CourseSearchTool store []"
| "reset_tool (CourseOutlineTool store loads ls) = CourseOutlineTool store loads []"
| "reset_tool (OtherTool n ls f) =
     OtherTool n (case ls of None \<Rightarrow> None | Some old \<Rightarrow> Some []) f"

subsection \<open>ToolManager\<close>

text \<open>
  \<open>self.tools\<close> is a Python dictionary: it keeps its keys in insertion order, and
  assigning to a key that is present keeps the key's place. That is an association list
  with distinct keys under \<open>AList.update\<close>.
\<close>

record tool_manager =
  tools :: "(string \<times> tool) list"

definition new_manager :: tool_manager where
  "new_manager = \<lparr>tools = []\<rparr>"

definition register_tool :: "tool_manager \<Rightarrow> tool \<Rightarrow> py_error + tool_manager" where
  "register_tool m t =
     (if \<not> truthy_str (tool_name t)
      then Inl (ValueError ''Tool must have a 'name' in its definition'')
      else Inr (m\<lparr>tools := AList.update (the (tool_name t)) t (tools m)\<rparr>))"

definition execute_tool ::
  "tool_manager \<Rightarrow> string \<Rightarrow> call_args \<Rightarrow> py_error + string \<times> tool_manager" where
  "execute_tool m name args =
     (case map_of (tools m) name of
        None \<Rightarrow> Inr (''Tool '' @ squote @ name @ squote @ '' not found'', m)
      | Some t \<Rightarrow>
          (case execute t args of
             Inl e \<Rightarrow> Inl e
           | Inr (out, t') \<Rightarrow> Inr (out, m\<lparr>tools := AList.update name t' (tools m)\<rparr>)))"

text \<open>The loop of \<open>get_last_sources\<close> over \<open>self.tools.values()\<close>, with its early return.\<close>

fun first_sources :: "tool list \<Rightarrow> source list" where
  "first_sources [] = []"
| "first_sources (t # ts) =
     (case last_sources t of
        None \<Rightarrow> first_sources ts
      | Some [] \<Rightarrow> first_sources ts
      | Some (s # ss) \<Rightarrow> s # ss)"

definition get_last_sources :: "tool_manager \<Rightarrow> source list" where
  "get_last_sources m = first_sources (map snd (tools m))"

definition reset_sources :: "tool_manager \<Rightarrow> tool_manager" where
  "reset_sources m = m\<lparr>tools := map (\<lambda>(name, t). (name, reset_tool t)) (tools m)\<rparr>"

subsection \<open>A small store to run the tools on\<close>

text \<open>
  Two courses. The query \<open>basics\<close> has two hits in Test Course, the first in lesson 1
  (which has a link), the second with no lesson number; the query \<open>boom\<close> makes the
  store report an error; every other query has no hit. The catalog entry of MCP Course
  decodes to two lessons, the first numbered 0; the entry of Test Course does not decode.
\<close>

definition demo_results :: search_results where
  "demo_results =
     \<lparr>documents = [''Content of lesson 1 about basic concepts.'', ''General course content.''],
      metadata = [\<lparr>course_title = Some ''Test Course'', lesson_number = Some 1\<rparr>,
                  \<lparr>course_title = Some ''Test Course'', lesson_number = None\<rparr>],
      error = None\<rparr>"

definition mcp_blob :: string where
  \<open>mcp_blob =
     ''[{"lesson_number": 0, "lesson_title": "Introduction", "lesson_link": "https://example.com/mcp/0"}, {"lesson_number": 1, "lesson_title": "Setup"}]''\<close>

definition demo_store :: vector_store where
  "demo_store =
     \<lparr>search = (\<lambda>q c l.
         if q = ''basics'' then demo_results
         else if q = ''boom'' then \<lparr>documents = [], metadata = [], error = Some ''Search error: boom''\<rparr>
         else \<lparr>documents = [], metadata = [], error = None\<rparr>),
      get_lesson_link = (\<lambda>t n. if t = ''Test Course'' \<and> n = 1
                                then Some ''https://example.com/lesson1'' else None),
      resolve_course_name = (\<lambda>n. if n = ''MCP'' then Some ''MCP Course''
                                   else if n = ''Test'' then Some ''Test Course'' else None),
      get_existing_course_titles = [''Test Course'', ''MCP Course''],
      catalog_metadatas = (\<lambda>t.
         if t = ''MCP Course''
         then Some [\<lparr>title = Some ''MCP Course'', course_link = Some ''https://example.com/mcp'',
                     instructor = Some ''Ada'', lessons_json = Some mcp_blob\<rparr>]
         else if t = ''Test Course''
         then Some [\<lparr>title = Some ''Test Course'', course_link = None,
                     instructor = Some ''Bob'', lessons_json = Some ''[{not json''\<rparr>]
         else None)\<rparr>"

text \<open>
  \<open>json.loads\<close> on the blobs that occur below. The blob of MCP Course decodes to its
  two lessons, \<open>[1, 2]\<close> to a list of numbers, \<open>[{not json\<close> is no JSON, and one
  hundred thousand opening brackets exceed the recursion limit of the decoder. On any
  other blob the table answers as for \<open>[{not json\<close>; no statement below reads it there.
\<close>

definition deep_blob :: string where
  "deep_blob = replicate 100000 (CHR ''['')"

definition demo_loads :: "string \<Rightarrow> py_error + json" where
  "demo_loads b =
     (if b = ''[]'' then Inr (JList [])
      else if b = mcp_blob
      then Inr (JList [JDict [(''lesson_number'', JInt 0), (''lesson_title'', JStr ''Introduction''),
                              (''lesson_link'', JStr ''https://example.com/mcp/0'')],
                       JDict [(''lesson_number'', JInt 1), (''lesson_title'', JStr ''Setup'')]])
      else if b = ''[{not json'' then Inl JSONDecodeError
      else if b = ''[1, 2]'' then Inr (JList [JInt 1, JInt 2])
      else if b = deep_blob then Inl RecursionError
      else Inl JSONDecodeError)"

text \<open>
  A second catalog, with two entries whose blobs are not lesson lists: the blob of Deep
  Course is \<open>deep_blob\<close>, the blob of Numbers Course is \<open>[1, 2]\<close>.
\<close>

definition odd_store :: vector_store where
  "odd_store =
     demo_store\<lparr>
       resolve_course_name := (\<lambda>n. if n = ''Deep'' then Some ''Deep Course''
                                    else if n = ''Numbers'' then Some ''Numbers Course'' else None),
       get_existing_course_titles := [''Deep Course'', ''Numbers Course''],
       catalog_metadatas := (\<lambda>t.
         if t = ''Deep Course''
         then Some [\<lparr>title = Some ''Deep Course'', course_link = None,
                     instructor = Some ''Eve'', lessons_json = Some deep_blob\<rparr>]
         else if t = ''Numbers Course''
         then Some [\<lparr>title = Some ''Numbers Course'', course_link = None,
                     instructor = Some ''Eve'', lessons_json = Some ''[1, 2]''\<rparr>]
         else None)\<rparr>"

text \<open>The citations the two tools hold after a search for \<open>basics\<close> and an outline of MCP.\<close>

definition basics_sources :: "source list" where
  "basics_sources =
     [\<lparr>source_text = ''Test Course - Lesson 1'', source_link = Some ''https://example.com/lesson1''\<rparr>,
      \<lparr>source_text = ''Test Course'', source_link = None\<rparr>]"

definition mcp_sources :: "source list" where
  "mcp_sources =
     [\<lparr>source_text = ''MCP Course - Lesson 0'', source_link = Some ''https://example.com/mcp/0''\<rparr>]"

text \<open>A manager with the two tools registered, the search tool first.\<close>

definition demo_manager :: tool_manager where
  "demo_manager =
     \<lparr>tools = [(''search_course_content'', CourseSearchTool demo_store []),
               (''get_course_outline'', CourseOutlineTool demo_store demo_loads [])]\<rparr>"

text \<open>
  The same manager after a search for \<open>basics\<close>, after an outline of MCP on top of
  that, and with only the outline tool holding citations; and a tool whose definition
  has no name.
\<close>

definition demo_after_search :: tool_manager where
  "demo_after_search =
     \<lparr>tools = [(''search_course_content'', CourseSearchTool demo_store basics_sources),
               (''get_course_outline'', CourseOutlineTool demo_store demo_loads [])]\<rparr>"

definition demo_after_turn :: tool_manager where
  "demo_after_turn =
     \<lparr>tools = [(''search_course_content'', CourseSearchTool demo_store basics_sources),
               (''get_course_outline'', CourseOutlineTool demo_store demo_loads mcp_sources)]\<rparr>"

definition demo_outline_only :: tool_manager where
  "demo_outline_only =
     \<lparr>tools = [(''search_course_content'', CourseSearchTool demo_store []),
               (''get_course_outline'', CourseOutlineTool demo_store demo_loads mcp_sources)]\<rparr>"

definition demo_unnamed :: tool where
  "demo_unnamed = OtherTool None None (\<lambda>args ls. Inr (''done'', ls))"

section \<open>Properties\<close>

subsection \<open>Evaluation and helper facts\<close>

lemmas str_defs = str_int_def str_nat.simps digit_char_def

lemma demo_search_basics: "search demo_store ''basics'' c l = demo_results"
  by (simp add: demo_store_def)

lemma demo_search_boom:
  "search demo_store ''boom'' c l = \<lparr>documents = [], metadata = [], error = Some ''Search error: boom''\<rparr>"
  by (simp add: demo_store_def)

lemma demo_search_nothing:
  "search demo_store ''nothing'' c l = \<lparr>documents = [], metadata = [], error = None\<rparr>"
  by (simp add: demo_store_def)

lemma format_results_sources:
  "snd (format_results store r) =
     map (\<lambda>h. snd (format_hit store h)) (zip (documents r) (metadata r))"
  by (simp add: format_results_def Let_def)

lemma format_hit_text:
  "source_text (snd (format_hit store (d, m))) =
     (case lesson_number m of
        None \<Rightarrow> (case course_title m of None \<Rightarrow> ''unknown'' | Some t \<Rightarrow> t)
      | Some n \<Rightarrow> (case course_title m of None \<Rightarrow> ''unknown'' | Some t \<Rightarrow> t)
                   @ '' - Lesson '' @ str_int n)"
  by (simp add: format_hit_def Let_def split: option.splits)

lemma first_sources_reset: "first_sources (map reset_tool ts) = []"
proof (induction ts)
  case Nil
  show ?case by simp
next
  case (Cons t ts)
  then show ?case by (cases t) (auto split: option.splits)
qed

lemma reset_values:
  "map snd (map (\<lambda>(name, t). (name, reset_tool t)) al) = map reset_tool (map snd al)"
  by (induction al) auto

lemma deep_blob_neq: "length s \<noteq> 100000 \<Longrightarrow> (deep_blob = s) = False"
  by (auto simp add: deep_blob_def)

lemma demo_loads_deep: "demo_loads deep_blob = Inl RecursionError"
  by (simp add: demo_loads_def mcp_blob_def deep_blob_neq)

lemma str_join_snoc: "xs \<noteq> [] \<Longrightarrow> str_join sep (xs @ [y]) = str_join sep xs @ sep @ y"
  by (induction sep xs rule: str_join.induct) auto

lemma first_sources_nth:
  "i < length ts \<Longrightarrow> last_sources (ts ! i) = Some ls \<Longrightarrow> ls \<noteq> [] \<Longrightarrow>
   (\<forall>j<i. last_sources (ts ! j) = None \<or> last_sources (ts ! j) = Some []) \<Longrightarrow>
   first_sources ts = ls"
proof (induction ts arbitrary: i)
  case Nil
  then show ?case by simp
next
  case (Cons t ts)
  show ?case
  proof (cases i)
    case 0
    with Cons.prems show ?thesis by (cases ls) simp_all
  next
    case (Suc k)
    from Cons.prems(4) Suc have t: "last_sources t = None \<or> last_sources t = Some []"
      by auto
    have rest: "\<forall>j<k. last_sources (ts ! j) = None \<or> last_sources (ts ! j) = Some []"
      using Cons.prems(4) Suc by auto
    have "first_sources ts = ls"
      using Cons.IH [of k] Cons.prems(1,2,3) Suc rest by simp
    with t show ?thesis by auto
  qed
qed

lemma first_sources_none:
  "(\<forall>t \<in> set ts. last_sources t = None \<or> last_sources t = Some []) \<Longrightarrow> first_sources ts = []"
  by (induction ts) auto

subsection \<open>CourseSearchTool\<close>

text \<open>
  C3. A successful search (no error, at least one hit, one metadata entry per document)
  with \<open>k\<close> hits leaves exactly \<open>k\<close> Sources, in hit order; the \<open>i\<close>-th has the text
  \<open><title>\<close> when the \<open>i\<close>-th hit has no lesson number and \<open><title> - Lesson <n>\<close>
  when it has one (the title being \<open>unknown\<close> for a hit without a course title); and the
  Sources do not depend on what the tool held before, so they replace it.
\<close>

theorem search_success_sources:
  assumes "\<not> truthy_str (error (search store q c l))"
    and "documents (search store q c l) \<noteq> []"
    and "length (metadata (search store q c l)) = length (documents (search store q c l))"
  shows "length (snd (search_execute store q c l prev)) = length (documents (search store q c l))
       \<and> (\<forall>i < length (documents (search store q c l)).
            source_text (snd (search_execute store q c l prev) ! i) =
              (case lesson_number (metadata (search store q c l) ! i) of
                 None \<Rightarrow> (case course_title (metadata (search store q c l) ! i) of
                            None \<Rightarrow> ''unknown'' | Some t \<Rightarrow> t)
               | Some n \<Rightarrow> (case course_title (metadata (search store q c l) ! i) of
                              None \<Rightarrow> ''unknown'' | Some t \<Rightarrow> t)
                            @ '' - Lesson '' @ str_int n))
       \<and> snd (search_execute store q c l prev) = snd (search_execute store q c l prev')"
proof -
  let ?r = "search store q c l"
  have ex: "\<And>p. search_execute store q c l p = format_results store ?r"
    using assms(1,2) by (simp add: search_execute_def is_empty_def)
  have len: "length (snd (format_results store ?r)) = length (documents ?r)"
    using assms(3) by (simp add: format_results_sources)
  have texts: "source_text (snd (format_results store ?r) ! i) =
              (case lesson_number (metadata ?r ! i) of
                 None \<Rightarrow> (case course_title (metadata ?r ! i) of None \<Rightarrow> ''unknown'' | Some t \<Rightarrow> t)
               | Some n \<Rightarrow> (case course_title (metadata ?r ! i) of None \<Rightarrow> ''unknown'' | Some t \<Rightarrow> t)
                            @ '' - Lesson '' @ str_int n)"
    if "i < length (documents ?r)" for i
    using that assms(3) by (simp add: format_results_sources format_hit_text)
  show ?thesis using len texts by (simp add: ex)
qed

theorem search_success_sources_witness:
  "length (snd (search_execute demo_store ''basics'' None None mcp_sources)) = 2
   \<and> source_text (snd (search_execute demo_store ''basics'' None None mcp_sources) ! 0)
       = ''Test Course - Lesson 1''
   \<and> source_text (snd (search_execute demo_store ''basics'' None None mcp_sources) ! 1)
       = ''Test Course''
   \<and> snd (search_execute demo_store ''basics'' None None mcp_sources)
       = snd (search_execute demo_store ''basics'' None None [])"
proof -
  have h1: "\<not> truthy_str (error (search demo_store ''basics'' None None))"
    by (simp add: demo_search_basics demo_results_def)
  have h2: "documents (search demo_store ''basics'' None None) \<noteq> []"
    by (simp add: demo_search_basics demo_results_def)
  have h3: "length (metadata (search demo_store ''basics'' None None))
              = length (documents (search demo_store ''basics'' None None))"
    by (simp add: demo_search_basics demo_results_def)
  from search_success_sources [OF h1 h2 h3, of mcp_sources "[]"]
  show ?thesis
    by (auto simp add: demo_search_basics demo_results_def str_defs All_less_Suc)
qed

text \<open>
  C8. When the store reports an error (the \<open>error\<close> field holds a non-empty message, which
  is what \<open>if results.error\<close> tests), \<open>execute\<close> returns exactly that message; the call
  returns normally, with the tool unchanged.
\<close>

theorem search_error_verbatim:
  assumes "error (search store q c l) = Some e" and "e \<noteq> []"
  shows "search_execute store q c l prev = (e, prev)
       \<and> execute (CourseSearchTool store prev) (SearchArgs q c l)
           = Inr (e, CourseSearchTool store prev)"
  using assms by (simp add: search_execute_def)

theorem search_error_verbatim_witness:
  "search_execute demo_store ''boom'' (Some ''MCP'') None basics_sources
     = (''Search error: boom'', basics_sources)
   \<and> execute (CourseSearchTool demo_store basics_sources) (SearchArgs ''boom'' (Some ''MCP'') None)
       = Inr (''Search error: boom'', CourseSearchTool demo_store basics_sources)"
proof -
  have h1: "error (search demo_store ''boom'' (Some ''MCP'') None) = Some ''Search error: boom''"
    by (simp add: demo_search_boom)
  have h2: "''Search error: boom'' \<noteq> []"
    by simp
  from search_error_verbatim [OF h1 h2] show ?thesis .
qed

text \<open>
  C10. On the error branch and on the empty-result branch \<open>execute\<close> leaves
  \<open>self.last_sources\<close> as it was: the Sources of an earlier successful search are still
  there after the call.
\<close>

theorem search_error_or_empty_keeps_sources:
  assumes "truthy_str (error (search store q c l)) \<or> is_empty (search store q c l)"
  shows "snd (search_execute store q c l prev) = prev
       \<and> (\<exists>out. execute (CourseSearchTool store prev) (SearchArgs q c l)
                  = Inr (out, CourseSearchTool store prev))"
  using assms by (auto simp add: search_execute_def Let_def)

theorem search_error_or_empty_keeps_sources_witness:
  "snd (search_execute demo_store ''nothing'' None None basics_sources) = basics_sources
   \<and> (\<exists>out. execute (CourseSearchTool demo_store basics_sources) (SearchArgs ''nothing'' None None)
              = Inr (out, CourseSearchTool demo_store basics_sources))
   \<and> snd (search_execute demo_store ''boom'' None None basics_sources) = basics_sources"
proof -
  have h1: "truthy_str (error (search demo_store ''nothing'' None None))
            \<or> is_empty (search demo_store ''nothing'' None None)"
    by (simp add: demo_search_nothing is_empty_def)
  have h2: "truthy_str (error (search demo_store ''boom'' None None))
            \<or> is_empty (search demo_store ''boom'' None None)"
    by (simp add: demo_search_boom)
  from search_error_or_empty_keeps_sources [OF h1, of basics_sources]
    search_error_or_empty_keeps_sources [OF h2, of basics_sources]
  show ?thesis by blast
qed

text \<open>
  The message of a search without hits. With no filter it is exactly
  \<open>No relevant content found.\<close>; a filter that \<open>if course_name\<close> and
  \<open>if lesson_number\<close> let through adds its suffix.
\<close>

lemma search_empty_message:
  assumes "\<not> truthy_str (error (search store q c l))" and "is_empty (search store q c l)"
  shows "fst (search_execute store q c l prev) =
           ''No relevant content found''
           @ (if truthy_str c then '' in course '' @ squote @ the c @ squote else [])
           @ (if truthy_int l then '' in lesson '' @ str_int (the l) else [])
           @ ''.''"
  using assms by (simp add: search_execute_def)

lemma search_empty_no_filters:
  assumes "\<not> truthy_str (error (search store q None None))" and "is_empty (search store q None None)"
  shows "fst (search_execute store q None None prev) = ''No relevant content found.''"
  using assms by (simp add: search_execute_def)

lemma search_empty_mcp:
  "fst (search_execute demo_store ''nothing'' (Some ''MCP'') None []) = ''No relevant content found in course 'MCP'.''"
  by (simp add: search_execute_def demo_search_nothing is_empty_def)

text \<open>
  C4. A search without hits answers \<open>No relevant content found\<close>, followed by the
  suffixes of the filters that were supplied. The test \<open>if lesson_number\<close> is false
  for lesson 0: a search filtered to lesson 0 that has no hits returns the message
  without the lesson suffix, while \<open>_format_results\<close>, which tests \<open>is not None\<close>,
  renders lesson 0 in its header.
\<close>

theorem search_empty_lesson_zero_no_suffix:
  "search_execute demo_store ''nothing'' None (Some 0) [] = (''No relevant content found.'', [])
   \<and> fst (format_hit demo_store (''doc'', \<lparr>course_title = Some ''MCP Course'', lesson_number = Some 0\<rparr>))
       = ''[MCP Course - Lesson 0]\<newline>doc''"
  by (simp add: search_execute_def demo_search_nothing is_empty_def format_hit_def str_defs)

subsection \<open>ToolManager\<close>

text \<open>
  C9. Whatever the manager holds, \<open>reset_sources\<close> followed by \<open>get_last_sources\<close>
  gives the empty list.
\<close>

theorem reset_then_collect_empty: "get_last_sources (reset_sources m) = []"
proof -
  have "tools (reset_sources m) = map (\<lambda>(name, t). (name, reset_tool t)) (tools m)"
    by (simp add: reset_sources_def)
  then have "map snd (tools (reset_sources m)) = map reset_tool (map snd (tools m))"
    by (simp only: reset_values)
  then show ?thesis
    by (simp only: get_last_sources_def first_sources_reset)
qed

text \<open>
  C1. Registering a tool under a name that is already registered raises nothing: the
  new tool takes the place of the old one.
\<close>

theorem register_duplicate_replaces:
  "map_of (tools demo_manager) ''search_course_content'' = Some (CourseSearchTool demo_store [])
   \<and> tool_name (CourseSearchTool demo_store basics_sources) = Some ''search_course_content''
   \<and> register_tool demo_manager (CourseSearchTool demo_store basics_sources) = Inr demo_after_search"
  by (simp add: demo_manager_def demo_after_search_def register_tool_def)

text \<open>
  C1, as the code has it. \<open>register_tool\<close> raises \<open>ValueError\<close> at once for a tool
  whose definition has no name (or an empty one). For a tool whose name is already
  registered it succeeds: the tool is stored under the name, the keys and their order
  stay as they were, and every other name keeps its tool.
\<close>

theorem register_tool_outcome:
  "(\<not> truthy_str (tool_name t) \<longrightarrow>
      register_tool m t = Inl (ValueError ''Tool must have a 'name' in its definition''))
   \<and> (tool_name t = Some n \<and> n \<noteq> [] \<and> n \<in> fst ` set (tools m) \<longrightarrow>
        (\<exists>m'. register_tool m t = Inr m'
              \<and> map_of (tools m') n = Some t
              \<and> map fst (tools m') = map fst (tools m)
              \<and> (\<forall>k. k \<noteq> n \<longrightarrow> map_of (tools m') k = map_of (tools m) k)))"
proof (intro conjI impI)
  assume "\<not> truthy_str (tool_name t)"
  then show "register_tool m t = Inl (ValueError ''Tool must have a 'name' in its definition'')"
    by (simp add: register_tool_def)
next
  assume a: "tool_name t = Some n \<and> n \<noteq> [] \<and> n \<in> fst ` set (tools m)"
  then have reg: "register_tool m t = Inr (m\<lparr>tools := AList.update n t (tools m)\<rparr>)"
    by (simp add: register_tool_def)
  have keys: "map fst (AList.update n t (tools m)) = map fst (tools m)"
    using a by (simp add: update_keys)
  show "\<exists>m'. register_tool m t = Inr m'
              \<and> map_of (tools m') n = Some t
              \<and> map fst (tools m') = map fst (tools m)
              \<and> (\<forall>k. k \<noteq> n \<longrightarrow> map_of (tools m') k = map_of (tools m) k)"
    using reg keys by (simp add: update_conv')
qed

theorem register_tool_outcome_witness:
  "register_tool demo_manager demo_unnamed = Inl (ValueError ''Tool must have a 'name' in its definition'')
   \<and> (\<exists>m'. register_tool demo_manager (CourseSearchTool demo_store basics_sources) = Inr m'
          \<and> map_of (tools m') ''search_course_content'' = Some (CourseSearchTool demo_store basics_sources)
          \<and> map fst (tools m') = [''search_course_content'', ''get_course_outline''])"
proof -
  have h1: "\<not> truthy_str (tool_name demo_unnamed)"
    by (simp add: demo_unnamed_def)
  have h2: "tool_name (CourseSearchTool demo_store basics_sources) = Some ''search_course_content''
            \<and> ''search_course_content'' \<noteq> []
            \<and> ''search_course_content'' \<in> fst ` set (tools demo_manager)"
    by (simp add: demo_manager_def)
  have k: "map fst (tools demo_manager) = [''search_course_content'', ''get_course_outline'']"
    by (simp add: demo_manager_def)
  from h1 register_tool_outcome [where t = demo_unnamed and m = demo_manager]
  have a: "register_tool demo_manager demo_unnamed
             = Inl (ValueError ''Tool must have a 'name' in its definition'')"
    by blast
  from h2 register_tool_outcome [where t = "CourseSearchTool demo_store basics_sources"
      and m = demo_manager and n = "''search_course_content''"]
  have b: "\<exists>m'. register_tool demo_manager (CourseSearchTool demo_store basics_sources) = Inr m'
          \<and> map_of (tools m') ''search_course_content'' = Some (CourseSearchTool demo_store basics_sources)
          \<and> map fst (tools m') = map fst (tools demo_manager)"
    by blast
  show ?thesis using a b by (simp only: k simp_thms)
qed

text \<open>
  C5. \<open>execute_tool\<close> with a name that is not a key of \<open>self.tools\<close> returns the text
  \<open>Tool '<name>' not found\<close> and leaves the manager as it is; with a registered name it
  returns what the \<open>execute\<close> of the tool stored under the name returns (its text, or
  the exception it raises).
\<close>

theorem execute_tool_dispatch:
  "(name \<notin> fst ` set (tools m) \<longrightarrow>
      execute_tool m name args = Inr (''Tool '' @ squote @ name @ squote @ '' not found'', m))
   \<and> (map_of (tools m) name = Some t \<longrightarrow>
        map_sum id fst (execute_tool m name args) = map_sum id fst (execute t args))"
proof (intro conjI impI)
  assume "name \<notin> fst ` set (tools m)"
  then have "map_of (tools m) name = None"
    by (simp add: map_of_eq_None_iff)
  then show "execute_tool m name args = Inr (''Tool '' @ squote @ name @ squote @ '' not found'', m)"
    by (simp add: execute_tool_def)
next
  assume "map_of (tools m) name = Some t"
  then show "map_sum id fst (execute_tool m name args) = map_sum id fst (execute t args)"
    by (cases "execute t args") (auto simp add: execute_tool_def)
qed

theorem execute_tool_dispatch_witness:
  "execute_tool demo_manager ''get_weather'' (OutlineArgs ''MCP'')
     = Inr (''Tool 'get_weather' not found'', demo_manager)
   \<and> map_sum id fst (execute_tool demo_manager ''search_course_content'' (SearchArgs ''boom'' None None))
       = Inr ''Search error: boom''"
proof -
  have h1: "''get_weather'' \<notin> fst ` set (tools demo_manager)"
    by (simp add: demo_manager_def)
  have h2: "map_of (tools demo_manager) ''search_course_content'' = Some (CourseSearchTool demo_store [])"
    by (simp add: demo_manager_def)
  from h1 execute_tool_dispatch [where name = "''get_weather''" and m = demo_manager
        and args = "OutlineArgs ''MCP''"]
  have a: "execute_tool demo_manager ''get_weather'' (OutlineArgs ''MCP'')
             = Inr (''Tool 'get_weather' not found'', demo_manager)"
    by simp
  from h2 execute_tool_dispatch [where name = "''search_course_content''" and m = demo_manager
        and args = "SearchArgs ''boom'' None None" and t = "CourseSearchTool demo_store []"]
  have b: "map_sum id fst (execute_tool demo_manager ''search_course_content'' (SearchArgs ''boom'' None None))
             = map_sum id fst (execute (CourseSearchTool demo_store []) (SearchArgs ''boom'' None None))"
    by blast
  show ?thesis using a b by (simp add: search_execute_def demo_search_boom)
qed

text \<open>
  C2. In one turn the search tool runs for \<open>basics\<close> and the outline tool for MCP; both
  hold a non-empty citation list afterwards, and \<open>get_last_sources\<close> returns the list
  of the search tool only.
\<close>

theorem collect_not_union:
  "map_sum id snd (execute_tool demo_manager ''search_course_content'' (SearchArgs ''basics'' None None))
     = Inr demo_after_search
   \<and> map_sum id snd (execute_tool demo_after_search ''get_course_outline'' (OutlineArgs ''MCP''))
     = Inr demo_after_turn
   \<and> map (last_sources \<circ> snd) (tools demo_after_turn) = [Some basics_sources, Some mcp_sources]
   \<and> get_last_sources demo_after_turn = basics_sources
   \<and> mcp_sources \<noteq> []
   \<and> set mcp_sources \<inter> set (get_last_sources demo_after_turn) = {}"
  apply (intro conjI)
  subgoal by (simp add: execute_tool_def demo_manager_def demo_after_search_def search_execute_def
       demo_search_basics demo_results_def is_empty_def format_results_def format_hit_def
       basics_sources_def demo_store_def str_defs)
  subgoal by (simp add: execute_tool_def demo_after_search_def demo_after_turn_def
       outline_execute_def demo_store_def demo_loads_def mcp_blob_def format_outline_def
       format_lesson_def dict_get_def py_str_def make_source_def mcp_sources_def str_defs)
  subgoal by (simp add: demo_after_turn_def)
  subgoal by (simp add: get_last_sources_def demo_after_turn_def basics_sources_def)
  subgoal by (simp add: mcp_sources_def)
  subgoal by (simp add: get_last_sources_def demo_after_turn_def basics_sources_def mcp_sources_def)
  done

text \<open>
  C2, as the code has it. \<open>get_last_sources\<close> returns the citation list of the first
  tool, in registration order, that has a non-empty \<open>last_sources\<close>; it returns the
  empty list when no tool has one.
\<close>

theorem collect_first_nonempty:
  "(i < length (tools m) \<and> last_sources (snd (tools m ! i)) = Some ls \<and> ls \<noteq> []
      \<and> (\<forall>j<i. last_sources (snd (tools m ! j)) = None \<or> last_sources (snd (tools m ! j)) = Some [])
     \<longrightarrow> get_last_sources m = ls)
   \<and> ((\<forall>t \<in> set (map snd (tools m)). last_sources t = None \<or> last_sources t = Some [])
     \<longrightarrow> get_last_sources m = [])"
proof (intro conjI impI)
  assume a: "i < length (tools m) \<and> last_sources (snd (tools m ! i)) = Some ls \<and> ls \<noteq> []
      \<and> (\<forall>j<i. last_sources (snd (tools m ! j)) = None \<or> last_sources (snd (tools m ! j)) = Some [])"
  have "first_sources (map snd (tools m)) = ls"
  proof (rule first_sources_nth [of i])
    show "i < length (map snd (tools m))" using a by simp
    show "last_sources (map snd (tools m) ! i) = Some ls" using a by simp
    show "ls \<noteq> []" using a by simp
    show "\<forall>j<i. last_sources (map snd (tools m) ! j) = None \<or> last_sources (map snd (tools m) ! j) = Some []"
      using a by simp
  qed
  then show "get_last_sources m = ls" by (simp add: get_last_sources_def)
next
  assume "\<forall>t \<in> set (map snd (tools m)). last_sources t = None \<or> last_sources t = Some []"
  then show "get_last_sources m = []"
    unfolding get_last_sources_def by (rule first_sources_none)
qed

theorem collect_first_nonempty_witness:
  "get_last_sources demo_after_turn = basics_sources
   \<and> get_last_sources demo_outline_only = mcp_sources
   \<and> get_last_sources demo_manager = []"
proof -
  have h0: "0 < length (tools demo_after_turn)
      \<and> last_sources (snd (tools demo_after_turn ! 0)) = Some basics_sources \<and> basics_sources \<noteq> []
      \<and> (\<forall>j<0. last_sources (snd (tools demo_after_turn ! j)) = None
                \<or> last_sources (snd (tools demo_after_turn ! j)) = Some [])"
    by (simp add: demo_after_turn_def basics_sources_def)
  have h1: "1 < length (tools demo_outline_only)
      \<and> last_sources (snd (tools demo_outline_only ! 1)) = Some mcp_sources \<and> mcp_sources \<noteq> []
      \<and> (\<forall>j<1. last_sources (snd (tools demo_outline_only ! j)) = None
                \<or> last_sources (snd (tools demo_outline_only ! j)) = Some [])"
    by (simp add: demo_outline_only_def mcp_sources_def)
  have h2: "\<forall>t \<in> set (map snd (tools demo_manager)). last_sources t = None \<or> last_sources t = Some []"
    by (simp add: demo_manager_def)
  from h0 collect_first_nonempty [where m = demo_after_turn and i = 0 and ls = basics_sources]
  have a: "get_last_sources demo_after_turn = basics_sources" by blast
  from h1 collect_first_nonempty [where m = demo_outline_only and i = 1 and ls = mcp_sources]
  have b: "get_last_sources demo_outline_only = mcp_sources" by blast
  from h2 collect_first_nonempty [where m = demo_manager]
  have c: "get_last_sources demo_manager = []" by blast
  show ?thesis using a b c by simp
qed

subsection \<open>CourseOutlineTool\<close>

text \<open>
  C6. When the course name does not resolve (\<open>_resolve_course_name\<close> gives \<open>None\<close> or
  an empty title), \<open>execute\<close> returns normally and leaves the tool unchanged: with a
  non-empty catalog the text names the request and lists every existing title, joined
  by a comma and a space; with an empty catalog it is
  \<open>No courses available in the system.\<close>
\<close>

theorem outline_unresolved_message:
  assumes "\<not> truthy_str (resolve_course_name store cname)"
  shows "execute (CourseOutlineTool store loads prev) (OutlineArgs cname) =
           Inr (if get_existing_course_titles store = []
                then ''No courses available in the system.''
                else ''No course found matching '' @ squote @ cname @ squote
                     @ ''. Available courses: '' @ str_join '', '' (get_existing_course_titles store),
                CourseOutlineTool store loads prev)"
  using assms by (simp add: outline_execute_def)

theorem outline_unresolved_message_witness:
  "execute (CourseOutlineTool demo_store demo_loads basics_sources) (OutlineArgs ''Rust'')
     = Inr (''No course found matching 'Rust'. Available courses: Test Course, MCP Course'',
            CourseOutlineTool demo_store demo_loads basics_sources)
   \<and> execute (CourseOutlineTool (demo_store\<lparr>get_existing_course_titles := []\<rparr>) demo_loads [])
         (OutlineArgs ''Rust'')
     = Inr (''No courses available in the system.'',
            CourseOutlineTool (demo_store\<lparr>get_existing_course_titles := []\<rparr>) demo_loads [])"
proof -
  have h1: "\<not> truthy_str (resolve_course_name demo_store ''Rust'')"
    by (simp add: demo_store_def)
  have h2: "\<not> truthy_str (resolve_course_name (demo_store\<lparr>get_existing_course_titles := []\<rparr>) ''Rust'')"
    by (simp add: demo_store_def)
  have t1: "get_existing_course_titles demo_store = [''Test Course'', ''MCP Course'']"
    by (simp add: demo_store_def)
  from outline_unresolved_message [OF h1, of demo_loads basics_sources]
    outline_unresolved_message [OF h2, of demo_loads "[]"]
  show ?thesis by (simp add: t1)
qed

text \<open>
  C7. A lesson blob that fails to decode can make \<open>execute\<close> raise. On the blob of one
  hundred thousand opening brackets the decoder raises \<open>RecursionError\<close>, which is not
  a \<open>JSONDecodeError\<close> and passes through \<open>execute\<close>; the blob \<open>[1, 2]\<close> decodes to a
  list that holds no lessons, and the loop of \<open>_format_outline\<close> raises
  \<open>AttributeError\<close> on its first element.
\<close>

theorem outline_decode_failure_raises:
  "execute (CourseOutlineTool odd_store demo_loads basics_sources) (OutlineArgs ''Deep'')
     = Inl RecursionError
   \<and> execute (CourseOutlineTool odd_store demo_loads basics_sources) (OutlineArgs ''Numbers'')
     = Inl AttributeError"
proof
  show "execute (CourseOutlineTool odd_store demo_loads basics_sources) (OutlineArgs ''Deep'')
          = Inl RecursionError"
    by (simp add: outline_execute_def odd_store_def demo_loads_deep)
  show "execute (CourseOutlineTool odd_store demo_loads basics_sources) (OutlineArgs ''Numbers'')
          = Inl AttributeError"
    by (simp add: outline_execute_def odd_store_def demo_loads_def mcp_blob_def
          format_outline_def format_lesson_def)
qed

text \<open>
  C7, as the code has it. When the course resolves, its catalog entry is found and
  \<open>json.loads\<close> raises \<open>JSONDecodeError\<close> on the lesson blob, \<open>execute\<close> returns
  normally the outline of an empty lesson sequence: the text ends with the line
  \<open>- No lessons available\<close> and the tool holds no Sources.
\<close>

theorem outline_malformed_lessons:
  assumes "resolve_course_name store cname = Some rt" and "rt \<noteq> []"
    and "catalog_metadatas store rt = Some (md # rest)"
    and "loads (case lessons_json md of None \<Rightarrow> ''[]'' | Some b \<Rightarrow> b) = Inl JSONDecodeError"
  shows "outline_execute store loads cname prev =
           format_outline (case title md of None \<Rightarrow> ''Unknown'' | Some t \<Rightarrow> t) (course_link md)
             (case instructor md of None \<Rightarrow> ''Unknown'' | Some i \<Rightarrow> i) (JList [])
       \<and> (\<exists>out. execute (CourseOutlineTool store loads prev) (OutlineArgs cname)
                   = Inr (out, CourseOutlineTool store loads [])
                 \<and> suffix ''\<newline>- No lessons available'' out)"
proof -
  let ?t = "case title md of None \<Rightarrow> ''Unknown'' | Some t \<Rightarrow> t"
  let ?i = "case instructor md of None \<Rightarrow> ''Unknown'' | Some i \<Rightarrow> i"
  let ?header = "[''Course: '' @ ?t]
            @ (if truthy_str (course_link md) then [''Link: '' @ the (course_link md)] else [])
            @ [''Instructor: '' @ ?i, '''', ''Lessons:'']"
  let ?out = "str_join ''\<newline>'' (?header @ [''- No lessons available''])"
  have ex: "outline_execute store loads cname prev = format_outline ?t (course_link md) ?i (JList [])"
    using assms by (simp add: outline_execute_def Let_def)
  have fo: "format_outline ?t (course_link md) ?i (JList []) = Inr (?out, [])"
    by (simp add: format_outline_def)
  have "?out = str_join ''\<newline>'' ?header @ ''\<newline>'' @ ''- No lessons available''"
    by (rule str_join_snoc) simp
  then have suf: "suffix ''\<newline>- No lessons available'' ?out"
    by (simp add: suffix_def)
  have "execute (CourseOutlineTool store loads prev) (OutlineArgs cname)
          = Inr (?out, CourseOutlineTool store loads [])"
    by (simp add: ex fo)
  with suf ex show ?thesis by blast
qed

theorem outline_malformed_lessons_witness:
  "outline_execute demo_store demo_loads ''Test'' basics_sources
     = Inr (''Course: Test Course\<newline>Instructor: Bob\<newline>\<newline>Lessons:\<newline>- No lessons available'', [])
   \<and> (\<exists>out. execute (CourseOutlineTool demo_store demo_loads basics_sources) (OutlineArgs ''Test'')
               = Inr (out, CourseOutlineTool demo_store demo_loads [])
             \<and> suffix ''\<newline>- No lessons available'' out)"
proof -
  have h1: "resolve_course_name demo_store ''Test'' = Some ''Test Course''"
    by (simp add: demo_store_def)
  have h2: "''Test Course'' \<noteq> []" by simp
  have h3: "catalog_metadatas demo_store ''Test Course'' =
              Some (\<lparr>title = Some ''Test Course'', course_link = None,
                     instructor = Some ''Bob'', lessons_json = Some ''[{not json''\<rparr> # [])"
    by (simp add: demo_store_def)
  have h4: "demo_loads (case lessons_json \<lparr>title = Some ''Test Course'', course_link = None,
                     instructor = Some ''Bob'', lessons_json = Some ''[{not json''\<rparr> of
                     None \<Rightarrow> ''[]'' | Some b \<Rightarrow> b) = Inl JSONDecodeError"
    by (simp add: demo_loads_def mcp_blob_def)
  note inst = outline_malformed_lessons [where store = demo_store and loads = demo_loads
      and cname = "''Test''" and rt = "''Test Course''" and rest = "[]" and prev = basics_sources
      and md = "\<lparr>title = Some ''Test Course'', course_link = None,
                     instructor = Some ''Bob'', lessons_json = Some ''[{not json''\<rparr>"]
  from inst [OF h1 h2 h3 h4]
  show ?thesis by (auto simp add: format_outline_def)
qed

text \<open>
  A lesson whose title is the JSON \<open>null\<close> has the key, so the default does not stand
  in and the line prints \<open>None\<close>; a lesson without the key prints \<open>Untitled\<close>.
\<close>

lemma lesson_null_title:
  "format_lesson ''T'' (JDict [(''lesson_number'', JInt 1), (''lesson_title'', JNull)])
     = Inr (''- Lesson 1: None'', None)
   \<and> format_lesson ''T'' (JDict [(''lesson_number'', JInt 1)])
     = Inr (''- Lesson 1: Untitled'', None)"
  by (simp add: format_lesson_def dict_get_def py_str_def str_defs)

end
